theory Spec2Isabelle
  imports Complex_Main
begin

section \<open>Python string primitives used by the dashboard\<close>

text \<open>
  Cells of the three annotation tables are Python \<open>str\<close> values. They are modelled as
  \<open>string\<close> (lists of characters) restricted to ASCII text: \<open>py_isspace\<close> lists the ASCII
  characters that \<open>str.strip\<close> and \<open>str.split\<close> treat as whitespace, and \<open>py_lower\<close> folds
  the letters A to Z only.
\<close>

definition py_isspace :: "char \<Rightarrow> bool" where
  "py_isspace c = (c \<in> set [CHR '' '', CHR 0x09, CHR 0x0A, CHR 0x0B, CHR 0x0C, CHR 0x0D,
                         CHR 0x1C, CHR 0x1D, CHR 0x1E, CHR 0x1F])"

definition py_lower_char :: "char \<Rightarrow> char" where
  "py_lower_char c =
     (if c \<in> set ''ABCDEFGHIJKLMNOPQRSTUVWXYZ''
      then (case c of Char b0 b1 b2 b3 b4 b5 b6 b7 \<Rightarrow> Char b0 b1 b2 b3 b4 True b6 b7)
      else c)"

definition py_lower :: "string \<Rightarrow> string" where
  "py_lower s = map py_lower_char s"

definition py_strip :: "string \<Rightarrow> string" where
  "py_strip s = rev (dropWhile py_isspace (rev (dropWhile py_isspace s)))"

text \<open>\<open>s.replace(c, '')\<close> for a one-character \<open>c\<close>.\<close>

definition py_remove :: "char \<Rightarrow> string \<Rightarrow> string" where
  "py_remove c s = filter (\<lambda>x. x \<noteq> c) s"

text \<open>\<open>s.rstrip('s')\<close>: every trailing \<open>s\<close> is dropped, not only one.\<close>

definition py_rstrip_s :: "string \<Rightarrow> string" where
  "py_rstrip_s s = rev (dropWhile (\<lambda>x. x = CHR ''s'') (rev s))"

text \<open>\<open>s.split(',')\<close>: the result is never empty, and empty pieces are kept.\<close>

fun py_split_comma :: "string \<Rightarrow> string list" where
  "py_split_comma [] = [[]]"
| "py_split_comma (c # cs) =
     (if c = CHR '','' then [] # py_split_comma cs
      else (case py_split_comma cs of [] \<Rightarrow> [[c]] | w # ws \<Rightarrow> (c # w) # ws))"

text \<open>
  \<open>s.split()\<close>: maximal runs of non-whitespace characters; \<open>cur\<close> is the word being read.
\<close>

fun py_split_ws :: "string \<Rightarrow> string \<Rightarrow> string list" where
  "py_split_ws cur [] = (if cur = [] then [] else [cur])"
| "py_split_ws cur (c # cs) =
     (if py_isspace c then (if cur = [] then py_split_ws [] cs else cur # py_split_ws [] cs)
      else py_split_ws (cur @ [c]) cs)"

definition py_split :: "string \<Rightarrow> string list" where
  "py_split s = py_split_ws [] s"

section \<open>Normalizer and fuzzy matcher (dashboard.py, lines 975 to 1048)\<close>

definition normalize_text :: "string \<Rightarrow> string" where
  "normalize_text text =
     (if text = [] then []
      else py_remove CHR ''_'' (py_remove CHR '' '' (py_remove CHR ''-'' (py_lower (py_strip text)))))"

text \<open>The local helper \<open>normalize_word\<close> of \<open>word_level_match\<close>.\<close>

definition normalize_word :: "string \<Rightarrow> string" where
  "normalize_word word =
     py_remove CHR ''_'' (py_remove CHR ''-'' (py_remove CHR '' '' (py_lower (py_strip word))))"

text \<open>\<open>[v.strip().lower() for v in str(val).split(',')]\<close>\<close>

definition comma_values :: "string \<Rightarrow> string list" where
  "comma_values val = map (\<lambda>v. py_lower (py_strip v)) (py_split_comma val)"

text \<open>
  The set \<open>words1\<close> (and \<open>words2\<close>) of \<open>word_level_match\<close>, as the list of the elements in
  the order the loop adds them: for every comma-separated value its words, then the
  whole value, each normalised and kept when not empty.
\<close>

definition value_words :: "string \<Rightarrow> string list" where
  "value_words val =
     concat (map (\<lambda>v. filter (\<lambda>w. w \<noteq> []) (map normalize_word (py_split v) @ [normalize_word v]))
                 (comma_values val))"

definition word_level_match :: "string \<Rightarrow> string \<Rightarrow> bool" where
  "word_level_match val1 val2 =
     (if val1 = [] \<or> val2 = [] then False
      else list_ex (\<lambda>w. w \<in> set (value_words val2)) (value_words val1))"

text \<open>The sets of \<open>fuzzy_match_subcat\<close>: words only, each with its trailing \<open>s\<close> removed.\<close>

definition subcat_words :: "string \<Rightarrow> string list" where
  "subcat_words subcat =
     concat (map (\<lambda>v. filter (\<lambda>w. w \<noteq> []) (map (\<lambda>word. py_rstrip_s (normalize_text word)) (py_split v)))
                 (comma_values subcat))"

definition fuzzy_match_subcat :: "string \<Rightarrow> string \<Rightarrow> bool" where
  "fuzzy_match_subcat subcat1 subcat2 =
     (if subcat1 = [] \<or> subcat2 = [] then False
      else list_ex (\<lambda>w. w \<in> set (subcat_words subcat2)) (subcat_words subcat1))"

section \<open>Row-sets\<close>

text \<open>
  One row of a per-image table as \<open>sort_by_category\<close> leaves it: the display columns
  \<open>Cat\<close>, \<open>Subcat\<close>, \<open>Key\<close>, \<open>Value\<close> and the hidden columns \<open>_cat_for_match\<close> and
  \<open>_subcat_for_match\<close> that hold the forward-filled labels.
\<close>

record row =
  Cat :: string
  Subcat :: string
  Key :: string
  Value :: string
  cat_for_match :: string
  subcat_for_match :: string

text \<open>\<open>str(x).strip().lower()\<close>, applied to every cell that is read.\<close>

definition cell :: "string \<Rightarrow> string" where
  "cell s = py_lower (py_strip s)"

section \<open>Deduplication (dashboard.py, remove_duplicates)\<close>

definition normalize_for_dedup :: "string \<Rightarrow> string" where
  "normalize_for_dedup text =
     (if text = [] then []
      else py_remove CHR ''_'' (py_remove CHR '' '' (py_remove CHR ''-'' (py_lower (py_strip text)))))"

definition dedup_key :: "row \<Rightarrow> string \<times> string \<times> string" where
  "dedup_key r = (normalize_for_dedup (cat_for_match r),
                  normalize_for_dedup (subcat_for_match r),
                  normalize_for_dedup (Key r))"

text \<open>\<open>drop_duplicates(subset = ..., keep = 'first')\<close>; \<open>seen\<close> holds the keys met so far.\<close>

fun drop_duplicates :: "('a \<Rightarrow> 'k) \<Rightarrow> 'k list \<Rightarrow> 'a list \<Rightarrow> 'a list" where
  "drop_duplicates f seen [] = []"
| "drop_duplicates f seen (x # xs) =
     (if f x \<in> set seen then drop_duplicates f seen xs
      else x # drop_duplicates f (f x # seen) xs)"

definition remove_duplicates :: "row list \<Rightarrow> row list" where
  "remove_duplicates vlm_df =
     (if length vlm_df = 0 then vlm_df else drop_duplicates dedup_key [] vlm_df)"

section \<open>Lookup dictionaries\<close>

text \<open>
  \<open>vlm_lookup\<close> and \<open>fnf_lookup\<close> are Python dictionaries holding both 3-tuple keys
  \<open>(cat, subcat, key)\<close> and 2-tuple keys \<open>(cat, key)\<close>. The loops over \<open>items()\<close> depend on
  the order of the entries, so a dictionary is an association list in insertion order:
  assigning to a key that is present replaces the value where the key stands.
\<close>

datatype lkey = K3 string string string | K2 string string

type_synonym lookup = "(lkey \<times> string) list"

fun dict_set :: "lookup \<Rightarrow> lkey \<Rightarrow> string \<Rightarrow> lookup" where
  "dict_set [] k v = [(k, v)]"
| "dict_set ((k', v') # d) k v =
     (if k' = k then (k, v) # d else (k', v') # dict_set d k v)"

text \<open>\<open>d.get(k, default)\<close>\<close>

definition dict_get :: "lookup \<Rightarrow> lkey \<Rightarrow> string \<Rightarrow> string" where
  "dict_get d k dflt = (case map_of d k of Some v \<Rightarrow> v | None \<Rightarrow> dflt)"

text \<open>
  The ground-truth dictionary (lines 1050 to 1078): rows with an empty value or the value
  \<open>nan\<close> are skipped, and a key that is present keeps its first value.
\<close>

definition fnf_lookup_step :: "lookup \<Rightarrow> row \<Rightarrow> lookup" where
  "fnf_lookup_step d r =
     (let cat = cell (cat_for_match r); subcat = cell (subcat_for_match r);
          key = cell (Key r); val = cell (Value r)
      in if val = [] \<or> val = ''nan'' then d
         else (let d1 = (if K3 cat subcat key \<notin> fst ` set d then dict_set d (K3 cat subcat key) val else d)
               in if K2 cat key \<notin> fst ` set d1 then dict_set d1 (K2 cat key) val else d1))"

definition build_fnf_lookup :: "row list \<Rightarrow> lookup" where
  "build_fnf_lookup fnf_df = foldl fnf_lookup_step [] fnf_df"

section \<open>The reconciler (dashboard.py, calculate_accuracy)\<close>

datatype py_error = ZeroDivisionError

text \<open>The counters and flags that \<open>calculate_accuracy\<close> keeps in local variables.\<close>

record tallies =
  marketing_match :: int
  marketing_total :: int
  marketing_extra :: int
  product_match :: int
  product_total :: int
  product_extra :: int
  subcat_errors :: int
  has_brand :: bool
  has_product_name :: bool

text \<open>
  The dictionary that \<open>calculate_accuracy\<close> returns. The accuracies are Python floats;
  they are modelled as exact rationals.
\<close>

record accuracy = tallies +
  marketing_acc :: rat
  product_acc :: rat
  value_acc :: rat
  subcat_acc :: rat

definition tallies0 :: tallies where
  "tallies0 = \<lparr>marketing_match = 0, marketing_total = 0, marketing_extra = 0,
               product_match = 0, product_total = 0, product_extra = 0, subcat_errors = 0,
               has_brand = False, has_product_name = False\<rparr>"

subsection \<open>Stage 1: the candidate dictionary and the bonus flags\<close>

definition vlm_index_step :: "tallies \<times> lookup \<Rightarrow> row \<Rightarrow> tallies \<times> lookup" where
  "vlm_index_step st vlm_row =
     (let t = fst st; d = snd st;
          v_cat = cell (cat_for_match vlm_row); v_subcat = cell (subcat_for_match vlm_row);
          v_key = cell (Key vlm_row); v_val = cell (Value vlm_row);
          t1 = (if v_key = ''brand'' \<and> v_val \<noteq> [] then t\<lparr>has_brand := True\<rparr> else t);
          t2 = (if v_key = ''product_name'' \<and> v_val \<noteq> [] then t1\<lparr>has_product_name := True\<rparr> else t1)
      in (t2, dict_set (dict_set d (K3 v_cat v_subcat v_key) v_val) (K2 v_cat v_key) v_val))"

subsection \<open>The relaxed searches over a dictionary\<close>

text \<open>
  The marketing loop: \<open>for key, val in lookup.items(): if len(key) == 2 and key[1] == ''
  and word_level_match(cat, key[0]): found = val; break\<close>. The first entry that passes
  the test gives the value, also when that value is empty.
\<close>

definition marketing_entry_matches :: "string \<Rightarrow> lkey \<Rightarrow> bool" where
  "marketing_entry_matches q_cat key =
     (case key of K2 c k \<Rightarrow> k = [] \<and> word_level_match q_cat c | K3 c s k \<Rightarrow> False)"

fun scan_marketing :: "lookup \<Rightarrow> string \<Rightarrow> string" where
  "scan_marketing [] q_cat = []"
| "scan_marketing (e # d) q_cat =
     (if marketing_entry_matches q_cat (fst e) then snd e else scan_marketing d q_cat)"

text \<open>
  The product loop: a 3-tuple entry is taken when its category word-matches, its key is
  equal, and either subcategory is empty or the two fuzzy-match.
\<close>

definition product_entry_matches :: "string \<Rightarrow> string \<Rightarrow> string \<Rightarrow> lkey \<Rightarrow> bool" where
  "product_entry_matches q_cat q_subcat q_key key =
     (case key of
        K3 c s k \<Rightarrow> word_level_match q_cat c \<and> k = q_key
                     \<and> (q_subcat = [] \<or> s = [] \<or> fuzzy_match_subcat q_subcat s)
      | K2 c k \<Rightarrow> False)"

fun scan_product :: "lookup \<Rightarrow> string \<Rightarrow> string \<Rightarrow> string \<Rightarrow> string" where
  "scan_product [] q_cat q_subcat q_key = []"
| "scan_product (e # d) q_cat q_subcat q_key =
     (if product_entry_matches q_cat q_subcat q_key (fst e) then snd e
      else scan_product d q_cat q_subcat q_key)"

text \<open>
  The value lookup, written twice in the source (lines 846 to 868 against \<open>vlm_lookup\<close>,
  lines 918 to 937 against \<open>fnf_lookup\<close>) with the same shape.
\<close>

definition find_value :: "lookup \<Rightarrow> string \<Rightarrow> string \<Rightarrow> string \<Rightarrow> string" where
  "find_value d q_cat q_subcat q_key =
     (let v = dict_get d (K3 q_cat q_subcat q_key) (dict_get d (K2 q_cat q_key) [])
      in if v = [] then
           (if q_key = [] then scan_marketing d q_cat
            else scan_product d q_cat q_subcat q_key)
         else v)"

subsection \<open>Stage 2: every ground-truth row against the candidate\<close>

text \<open>
  The subcategory check reads the candidate table itself: the first row whose category
  word-matches and whose key is equal.
\<close>

definition subcat_is_wrong :: "row list \<Rightarrow> string \<Rightarrow> string \<Rightarrow> string \<Rightarrow> bool" where
  "subcat_is_wrong vlm_df f_cat f_subcat f_key =
     (case find (\<lambda>vlm_row. word_level_match f_cat (cell (cat_for_match vlm_row))
                           \<and> cell (Key vlm_row) = f_key) vlm_df of
        None \<Rightarrow> False
      | Some vlm_row \<Rightarrow>
          (let v_subcat_check = cell (subcat_for_match vlm_row)
           in v_subcat_check \<noteq> [] \<and> \<not> fuzzy_match_subcat v_subcat_check f_subcat))"

definition fnf_step :: "row list \<Rightarrow> lookup \<Rightarrow> tallies \<Rightarrow> row \<Rightarrow> tallies" where
  "fnf_step vlm_df vlm_lookup t fnf_row =
     (let f_cat = cell (cat_for_match fnf_row); f_subcat = cell (subcat_for_match fnf_row);
          f_key = cell (Key fnf_row); f_val = cell (Value fnf_row);
          is_marketing = (f_key = []);
          v_val = find_value vlm_lookup f_cat f_subcat f_key
      in if is_marketing \<and> f_val \<noteq> [] then
           (let t1 = t\<lparr>marketing_total := marketing_total t + 1\<rparr>
            in if v_val \<noteq> [] \<and> word_level_match f_val v_val
               then t1\<lparr>marketing_match := marketing_match t1 + 1\<rparr> else t1)
         else if \<not> is_marketing \<and> f_val \<noteq> [] then
           (let t1 = t\<lparr>product_total := product_total t + 1\<rparr>;
                t2 = (if f_cat \<noteq> [] \<and> f_subcat \<noteq> [] \<and> f_key \<noteq> [] \<and> v_val \<noteq> []
                         \<and> subcat_is_wrong vlm_df f_cat f_subcat f_key
                      then t1\<lparr>subcat_errors := subcat_errors t1 + 1\<rparr> else t1)
            in if v_val \<noteq> [] \<and> word_level_match f_val v_val
               then t2\<lparr>product_match := product_match t2 + 1\<rparr> else t2)
         else t)"

subsection \<open>Stage 3: candidate rows with no ground-truth counterpart\<close>

definition extra_step :: "lookup \<Rightarrow> tallies \<Rightarrow> row \<Rightarrow> tallies" where
  "extra_step fnf_lookup t vlm_row =
     (let v_cat = cell (cat_for_match vlm_row); v_subcat = cell (subcat_for_match vlm_row);
          v_key = cell (Key vlm_row); v_val = cell (Value vlm_row)
      in if v_val = [] then t
         else (let is_marketing = (v_key = []);
                   f_val = find_value fnf_lookup v_cat v_subcat v_key
               in if f_val = [] then
                    (if is_marketing then t\<lparr>marketing_extra := marketing_extra t + 1\<rparr>
                     else t\<lparr>product_extra := product_extra t + 1\<rparr>)
                  else t))"

subsection \<open>Scoring\<close>

text \<open>Python's \<open>/\<close> raises \<open>ZeroDivisionError\<close> on a zero divisor.\<close>

definition truediv :: "int \<Rightarrow> int \<Rightarrow> py_error + rat" where
  "truediv a b = (if b = 0 then Inl ZeroDivisionError else Inr (of_int a / of_int b))"

definition bind_res :: "'e + 'a \<Rightarrow> ('a \<Rightarrow> 'e + 'b) \<Rightarrow> 'e + 'b" where
  "bind_res r f = (case r of Inl e \<Rightarrow> Inl e | Inr x \<Rightarrow> f x)"

definition score :: "tallies \<Rightarrow> py_error + accuracy" where
  "score t =
     bind_res (if marketing_total t > 0
               then bind_res (truediv (marketing_match t) (marketing_total t)) (\<lambda>q. Inr (q * 100))
               else Inr 0)
       (\<lambda>m_acc.
     bind_res (if product_total t > 0
               then bind_res (truediv (product_match t) (product_total t)) (\<lambda>q1.
                    bind_res (truediv (product_total t - subcat_errors t) (product_total t)) (\<lambda>q2.
                      Inr (q1 * 100, q2 * 100, (q1 * 100) * (6 / 10) + (q2 * 100) * (4 / 10))))
               else Inr (0, 0, 0))
       (\<lambda>(v_acc, s_acc, p_acc).
          Inr \<lparr>marketing_match = marketing_match t, marketing_total = marketing_total t,
               marketing_extra = marketing_extra t,
               product_match = product_match t, product_total = product_total t,
               product_extra = product_extra t, subcat_errors = subcat_errors t,
               has_brand = has_brand t, has_product_name = has_product_name t,
               marketing_acc = m_acc, product_acc = p_acc, value_acc = v_acc,
               subcat_acc = s_acc\<rparr>))"

definition vlm_index :: "row list \<Rightarrow> tallies \<times> lookup" where
  "vlm_index vlm_df = foldl vlm_index_step (tallies0, []) vlm_df"

definition calculate_accuracy :: "row list \<Rightarrow> row list \<Rightarrow> lookup \<Rightarrow> py_error + accuracy" where
  "calculate_accuracy vlm_df fnf_df fnf_lookup =
     (let st1 = vlm_index vlm_df;
          t2 = foldl (fnf_step vlm_df (snd st1)) (fst st1) fnf_df;
          t3 = foldl (extra_step fnf_lookup) t2 vlm_df
      in score t3)"

text \<open>
  At both call sites (lines 1210 and 1372) the ground-truth table and the dictionary built
  from it are passed together, with \<open>fuzzy_match_subcat\<close> and \<open>word_level_match\<close> as the
  two matchers; the arguments \<open>fnf_catsubcat\<close> and \<open>normalize_text\<close> are not read by the body.
\<close>

definition reconcile :: "row list \<Rightarrow> row list \<Rightarrow> py_error + accuracy" where
  "reconcile G C = calculate_accuracy C G (build_fnf_lookup G)"

text \<open>
  The candidate table reaches \<open>calculate_accuracy\<close> after \<open>remove_duplicates\<close> (lines 541
  and 546); the rows that \<open>add_missing_items\<close> appends in between are computed from the
  deduplicated table and the ground truth.
\<close>

definition dedup_then_reconcile :: "row list \<Rightarrow> row list \<Rightarrow> py_error + accuracy" where
  "dedup_then_reconcile G C = reconcile G (remove_duplicates C)"

subsection \<open>The lookup order as the specification words it\<close>

text \<open>
  For comparison with \<open>find_value\<close>: the order of section 4.4, step 3 of the specification,
  namely the exact triple, then the entries whose category word-matches, whose key is equal
  and whose subcategory fuzzy-matches, then the pair \<open>(cat, key)\<close>.
\<close>

definition spec_relaxed_entry :: "string \<Rightarrow> string \<Rightarrow> string \<Rightarrow> lkey \<times> string \<Rightarrow> bool" where
  "spec_relaxed_entry q_cat q_subcat q_key e =
     (case fst e of
        K3 c s k \<Rightarrow> word_level_match q_cat c \<and> k = q_key \<and> fuzzy_match_subcat q_subcat s
      | K2 c k \<Rightarrow> False)"

definition spec_value_lookup :: "lookup \<Rightarrow> string \<Rightarrow> string \<Rightarrow> string \<Rightarrow> string" where
  "spec_value_lookup d q_cat q_subcat q_key =
     (case map_of d (K3 q_cat q_subcat q_key) of
        Some v \<Rightarrow> v
      | None \<Rightarrow>
          (case find (spec_relaxed_entry q_cat q_subcat q_key) d of
             Some e \<Rightarrow> snd e
           | None \<Rightarrow> dict_get d (K2 q_cat q_key) []))"

section \<open>Aggregator (dashboard.py, lines 1399 to 1407)\<close>

text \<open>\<open>sum(rates) / len(rates) if rates else 0\<close>; Python's \<open>sum\<close> adds from the left, from 0.\<close>

definition average :: "rat list \<Rightarrow> rat" where
  "average rates = (if rates \<noteq> [] then foldl (+) 0 rates / of_nat (length rates) else 0)"

record summary =
  avg_marketing :: rat
  avg_product :: rat
  avg_combined :: rat

text \<open>
  The per-image records of one candidate source, in the order of the images; the two rate
  lists are appended to once per image.
\<close>

definition summarise :: "accuracy list \<Rightarrow> summary" where
  "summarise accs =
     (let m = average (map marketing_acc accs); p = average (map product_acc accs)
      in \<lparr>avg_marketing = m, avg_product = p, avg_combined = (m + p) / 2\<rparr>)"

section \<open>Table loading (dashboard.py, lines 46 to 177, and the head of main)\<close>

text \<open>
  A spreadsheet is a list of named columns; a cell is \<open>None\<close> where pandas reads NaN. A file
  on disk is absent, unreadable (\<open>read_excel\<close> raises, with the message given), locked
  (\<open>PermissionError\<close>), or a workbook. Messages are written in ASCII.
\<close>

type_synonym column = "string option list"

type_synonym dataframe = "(string \<times> column) list"

datatype xlsx = Absent | Unreadable string | Locked | Workbook dataframe

definition required_cols :: "string list" where
  "required_cols = [''Image'', ''Cat'', ''Subcat'', ''Key'', ''Value'']"

fun ffill :: "'a option \<Rightarrow> 'a option list \<Rightarrow> 'a option list" where
  "ffill prev [] = []"
| "ffill prev (None # xs) = prev # ffill prev xs"
| "ffill prev (Some x # xs) = Some x # ffill (Some x) xs"

text \<open>\<open>df[col] = f(df[col])\<close> for a column that is present.\<close>

definition map_col :: "string \<Rightarrow> (column \<Rightarrow> column) \<Rightarrow> dataframe \<Rightarrow> dataframe" where
  "map_col name f df = map (\<lambda>(n, c). if n = name then (n, f c) else (n, c)) df"

text \<open>\<open>df[col].fillna('').astype(str).str.lower()\<close>\<close>

definition lower_col :: "column \<Rightarrow> column" where
  "lower_col c = map (\<lambda>x. Some (py_lower (case x of None \<Rightarrow> [] | Some s \<Rightarrow> s))) c"

definition lower_text_cols :: "dataframe \<Rightarrow> dataframe" where
  "lower_text_cols df =
     foldl (\<lambda>d col. map_col col lower_col d) df [''Cat'', ''Subcat'', ''Key'', ''Value'']"

text \<open>\<open>df[required_cols]\<close>, used once every required column is known to be present.\<close>

definition select_cols :: "string list \<Rightarrow> dataframe \<Rightarrow> dataframe" where
  "select_cols names df =
     map (\<lambda>n. (n, case map_of df n of Some c \<Rightarrow> c | None \<Rightarrow> [])) names"

text \<open>
  \<open>load_fnf_data\<close> and \<open>load_oddconcept_data\<close> have the same body and differ in the file and
  in the wording of the message; each returns the pair (table or \<open>None\<close>, message or \<open>None\<close>).
\<close>

definition load_sheet :: "string \<Rightarrow> xlsx \<Rightarrow> dataframe option \<times> string option" where
  "load_sheet not_found file =
     (case file of
        Absent \<Rightarrow> (None, Some not_found)
      | Unreadable e \<Rightarrow> (None, Some e)
      | Locked \<Rightarrow> (None, Some ''[Errno 13] Permission denied'')
      | Workbook df \<Rightarrow>
          if \<not> list_all (\<lambda>col. col \<in> set (map fst df)) required_cols
          then (None, Some ''required columns are missing'')
          else (Some (select_cols required_cols
                        (lower_text_cols (map_col ''Image'' (ffill None) df))), None))"

definition load_fnf_data :: "xlsx \<Rightarrow> dataframe option \<times> string option" where
  "load_fnf_data file = load_sheet ''F&F answer file not found'' file"

definition load_oddconcept_data :: "xlsx \<Rightarrow> dataframe option \<times> string option" where
  "load_oddconcept_data file = load_sheet ''oddconcept result file not found'' file"

text \<open>\<open>df.rename(columns = {'Image': 'Image_Name'})\<close> when the column is present.\<close>

definition rename_image :: "dataframe \<Rightarrow> dataframe" where
  "rename_image df = map (\<lambda>(n, c). if n = ''Image'' then (''Image_Name'', c) else (n, c)) df"

text \<open>
  \<open>load_gemini_results\<close>: the argument is the list of result files of the output folder,
  newest name first, each with its name. A locked newest file falls back to the second one.
\<close>

definition load_gemini_results :: "(string \<times> xlsx) list \<Rightarrow> dataframe option \<times> string option" where
  "load_gemini_results result_files =
     (case result_files of
        [] \<Rightarrow> (None, None)
      | (name, file) # rest \<Rightarrow>
          (case file of
             Workbook df \<Rightarrow> (Some (lower_text_cols (rename_image df)), Some name)
           | Locked \<Rightarrow>
               (case rest of
                  (name2, Workbook df2) # _ \<Rightarrow>
                     (Some (lower_text_cols (rename_image df2)), Some (name2 @ '' (previous version)''))
                | _ \<Rightarrow> (None, Some ''file is open''))
           | Unreadable e \<Rightarrow> (None, Some e)
           | Absent \<Rightarrow> (None, Some ''file not found'')))"

text \<open>Truth value of an optional message: \<open>None\<close> and the empty string are false.\<close>

definition truthy :: "string option \<Rightarrow> bool" where
  "truthy e = (case e of None \<Rightarrow> False | Some s \<Rightarrow> s \<noteq> [])"

definition message :: "string option \<Rightarrow> string" where
  "message e = (case e of None \<Rightarrow> ''None'' | Some s \<Rightarrow> s)"

definition empty_frame :: dataframe where
  "empty_frame = map (\<lambda>n. (n, [])) required_cols"

definition load_data ::
  "xlsx \<Rightarrow> (string \<times> xlsx) list \<Rightarrow> xlsx
     \<Rightarrow> dataframe option \<times> dataframe option \<times> dataframe option \<times> string option" where
  "load_data fnf_file result_files odd_file =
     (let fnf = load_fnf_data fnf_file
      in if truthy (snd fnf) then (None, None, None, Some (''F&F load failed: '' @ message (snd fnf)))
         else
           (let gemini = load_gemini_results result_files;
                df_gemini = (case fst gemini of None \<Rightarrow> Some empty_frame | Some d \<Rightarrow> Some d);
                oddconcept = load_oddconcept_data odd_file
            in if truthy (snd oddconcept)
               then (None, None, None, Some (''oddconcept load failed: '' @ message (snd oddconcept)))
               else (fst fnf, df_gemini, fst oddconcept, None)))"

text \<open>Number of rows of a table.\<close>

definition df_len :: "dataframe \<Rightarrow> nat" where
  "df_len df = (case df of [] \<Rightarrow> 0 | (n, c) # _ \<Rightarrow> length c)"

text \<open>
  What \<open>main\<close> shows: the load-failure message and nothing else; a crash, when a table is
  \<open>None\<close> although no message was given; the warning that there are no VLM results; or, for
  every image of the VLM table, the VLM comparison and the vendor comparison side by side.
\<close>

datatype report = LoadFailure string | Crash | NoImages | Compared "string list"

text \<open>\<open>df_gemini[img_col].dropna().unique().tolist()\<close>\<close>

definition image_list :: "dataframe \<Rightarrow> string list" where
  "image_list df_gemini =
     (if df_len df_gemini > 0 then
        (let img_col = (if ''Image_Name'' \<in> set (map fst df_gemini) then ''Image_Name'' else ''Image'')
         in case map_of df_gemini img_col of
              Some c \<Rightarrow> drop_duplicates id [] (List.map_filter id c)
            | None \<Rightarrow> [])
      else [])"

definition main_report :: "xlsx \<Rightarrow> (string \<times> xlsx) list \<Rightarrow> xlsx \<Rightarrow> report" where
  "main_report fnf_file result_files odd_file =
     (case load_data fnf_file result_files odd_file of
        (df_fnf, df_gemini, df_oddconcept, error) \<Rightarrow>
          if truthy error then LoadFailure (message error)
          else
            (case (df_fnf, df_gemini, df_oddconcept) of
               (Some f, Some g, Some od) \<Rightarrow>
                 (let images = image_list g
                  in if images = [] then NoImages else Compared images)
             | _ \<Rightarrow> Crash))"

text \<open>
  The bounds that the counters keep throughout \<open>calculate_accuracy\<close>.
\<close>

definition counts_ok :: "tallies \<Rightarrow> bool" where
  "counts_ok t = (0 \<le> marketing_match t \<and> marketing_match t \<le> marketing_total t
                \<and> 0 \<le> product_match t \<and> product_match t \<le> product_total t
                \<and> 0 \<le> subcat_errors t \<and> subcat_errors t \<le> product_total t)"

section \<open>Shared lemmas\<close>

subsection \<open>Counters and scoring\<close>

lemma vlm_index_step_counts:
  "counts_ok (fst st) \<Longrightarrow> counts_ok (fst (vlm_index_step st r))"
  by (simp add: vlm_index_step_def counts_ok_def Let_def)

lemma foldl_vlm_index_step_counts:
  "counts_ok (fst st) \<Longrightarrow> counts_ok (fst (foldl vlm_index_step st C))"
  by (induction C arbitrary: st) (simp_all add: vlm_index_step_counts)

lemma vlm_index_counts: "counts_ok (fst (vlm_index C))"
  unfolding vlm_index_def
  by (rule foldl_vlm_index_step_counts) (simp add: counts_ok_def tallies0_def)

lemma fnf_step_counts: "counts_ok t \<Longrightarrow> counts_ok (fnf_step C d t r)"
  by (simp add: fnf_step_def counts_ok_def Let_def)

lemma foldl_fnf_step_counts: "counts_ok t \<Longrightarrow> counts_ok (foldl (fnf_step C d) t G)"
  by (induction G arbitrary: t) (simp_all add: fnf_step_counts)

lemma extra_step_counts: "counts_ok t \<Longrightarrow> counts_ok (extra_step fl t r)"
  by (simp add: extra_step_def counts_ok_def Let_def)

lemma foldl_extra_step_counts: "counts_ok t \<Longrightarrow> counts_ok (foldl (extra_step fl) t C)"
  by (induction C arbitrary: t) (simp_all add: extra_step_counts)

lemma score_eq:
  "score t = Inr \<lparr>marketing_match = marketing_match t, marketing_total = marketing_total t,
               marketing_extra = marketing_extra t,
               product_match = product_match t, product_total = product_total t,
               product_extra = product_extra t, subcat_errors = subcat_errors t,
               has_brand = has_brand t, has_product_name = has_product_name t,
               marketing_acc = (if marketing_total t > 0
                  then of_int (marketing_match t) / of_int (marketing_total t) * 100 else 0),
               product_acc = (if product_total t > 0
                  then (of_int (product_match t) / of_int (product_total t) * 100) * (6 / 10)
                     + (of_int (product_total t - subcat_errors t) / of_int (product_total t) * 100) * (4 / 10)
                  else 0),
               value_acc = (if product_total t > 0
                  then of_int (product_match t) / of_int (product_total t) * 100 else 0),
               subcat_acc = (if product_total t > 0
                  then of_int (product_total t - subcat_errors t) / of_int (product_total t) * 100 else 0)\<rparr>"
  unfolding score_def bind_res_def truediv_def
  by (cases "marketing_total t > 0"; cases "product_total t > 0") simp_all

lemma pct_bounds:
  fixes a b :: int
  assumes "0 \<le> a" "a \<le> b" "0 < b"
  shows "0 \<le> (of_int a / of_int b * 100 :: rat)" and "(of_int a / of_int b * 100 :: rat) \<le> 100"
  using assms by (simp_all add: divide_le_eq)

lemma calc_eq:
  "calculate_accuracy C G fl = score (foldl (extra_step fl) (foldl (fnf_step C (snd (vlm_index C))) (fst (vlm_index C)) G) C)"
  by (simp add: calculate_accuracy_def Let_def)

lemma calc_counts_ok:
  "counts_ok (foldl (extra_step fl) (foldl (fnf_step C (snd (vlm_index C))) (fst (vlm_index C)) G) C)"
  by (intro foldl_extra_step_counts foldl_fnf_step_counts vlm_index_counts)

lemma weighted_bounds:
  fixes x y :: rat
  assumes "0 \<le> x" "x \<le> 100" "0 \<le> y" "y \<le> 100"
  shows "0 \<le> x * (6 / 10) + y * (4 / 10)" and "x * (6 / 10) + y * (4 / 10) \<le> 100"
  using assms by simp_all

lemma score_bounds:
  assumes ok: "counts_ok t"
  shows "\<exists>r. score t = Inr r
     \<and> marketing_match r = marketing_match t \<and> marketing_total r = marketing_total t
     \<and> product_match r = product_match t \<and> product_total r = product_total t
     \<and> subcat_errors r = subcat_errors t
     \<and> 0 \<le> marketing_acc r \<and> marketing_acc r \<le> 100
     \<and> 0 \<le> value_acc r \<and> value_acc r \<le> 100
     \<and> 0 \<le> subcat_acc r \<and> subcat_acc r \<le> 100
     \<and> 0 \<le> product_acc r \<and> product_acc r \<le> 100"
proof -
  define M :: rat where "M = of_int (marketing_match t) / of_int (marketing_total t) * 100"
  define V :: rat where "V = of_int (product_match t) / of_int (product_total t) * 100"
  define S :: rat where "S = of_int (product_total t - subcat_errors t) / of_int (product_total t) * 100"
  have mm: "0 \<le> marketing_match t" "marketing_match t \<le> marketing_total t"
    and pm: "0 \<le> product_match t" "product_match t \<le> product_total t"
    and se: "0 \<le> product_total t - subcat_errors t" "product_total t - subcat_errors t \<le> product_total t"
    using ok by (simp_all add: counts_ok_def)
  have m: "0 \<le> M \<and> M \<le> 100" if "marketing_total t > 0"
    unfolding M_def using pct_bounds[OF mm that] by simp
  have v: "0 \<le> V \<and> V \<le> 100" if "product_total t > 0"
    unfolding V_def using pct_bounds[OF pm that] by simp
  have s: "0 \<le> S \<and> S \<le> 100" if "product_total t > 0"
    unfolding S_def using pct_bounds[OF se that] by simp
  have p: "0 \<le> V * (6 / 10) + S * (4 / 10) \<and> V * (6 / 10) + S * (4 / 10) \<le> 100"
    if "product_total t > 0"
    using weighted_bounds[of V S] v[OF that] s[OF that] by blast
  show ?thesis
    unfolding score_eq[of t] M_def[symmetric] V_def[symmetric] S_def[symmetric]
    using m v s p by simp
qed

lemma vlm_index_step_totals:
  "marketing_total (fst (vlm_index_step st r)) = marketing_total (fst st)
   \<and> product_total (fst (vlm_index_step st r)) = product_total (fst st)"
  by (simp add: vlm_index_step_def Let_def)

lemma foldl_vlm_index_step_totals:
  "marketing_total (fst (foldl vlm_index_step st C)) = marketing_total (fst st)
   \<and> product_total (fst (foldl vlm_index_step st C)) = product_total (fst st)"
  by (induction C arbitrary: st) (simp_all add: vlm_index_step_totals)

lemma vlm_index_totals:
  "marketing_total (fst (vlm_index C)) = 0 \<and> product_total (fst (vlm_index C)) = 0"
  unfolding vlm_index_def using foldl_vlm_index_step_totals[of "(tallies0, [])" C]
  by (simp add: tallies0_def)

lemma fnf_step_totals:
  "marketing_total (fnf_step C d t r) + product_total (fnf_step C d t r)
     \<le> marketing_total t + product_total t + 1"
  by (simp add: fnf_step_def Let_def)

lemma foldl_fnf_step_totals:
  "marketing_total (foldl (fnf_step C d) t G) + product_total (foldl (fnf_step C d) t G)
     \<le> marketing_total t + product_total t + int (length G)"
proof (induction G arbitrary: t)
  case Nil
  then show ?case by simp
next
  case (Cons r G)
  from Cons.IH[of "fnf_step C d t r"] fnf_step_totals[of C d t r]
  show ?case by simp
qed

lemma extra_step_totals:
  "marketing_total (extra_step fl t r) = marketing_total t
   \<and> product_total (extra_step fl t r) = product_total t"
  by (simp add: extra_step_def Let_def)

lemma foldl_extra_step_totals:
  "marketing_total (foldl (extra_step fl) t C) = marketing_total t
   \<and> product_total (foldl (extra_step fl) t C) = product_total t"
  by (induction C arbitrary: t) (simp_all add: extra_step_totals)

lemma calc_totals:
  "marketing_total (foldl (extra_step fl) (foldl (fnf_step C (snd (vlm_index C))) (fst (vlm_index C)) G) C)
   + product_total (foldl (extra_step fl) (foldl (fnf_step C (snd (vlm_index C))) (fst (vlm_index C)) G) C)
   \<le> int (length G)"
  using foldl_fnf_step_totals[of C "snd (vlm_index C)" "fst (vlm_index C)" G]
  by (simp add: foldl_extra_step_totals vlm_index_totals)

subsection \<open>Deduplication\<close>

lemma drop_duplicates_twice:
  "drop_duplicates f seen (concat (map (\<lambda>r. [r, r]) xs)) = drop_duplicates f seen xs"
  by (induction xs arbitrary: seen) simp_all

lemma drop_duplicates_all_seen:
  "f ` set ys \<subseteq> set seen \<Longrightarrow> drop_duplicates f seen ys = []"
  by (induction ys) auto

lemma drop_duplicates_append_seen:
  "f ` set ys \<subseteq> set seen \<union> f ` set xs \<Longrightarrow>
     drop_duplicates f seen (xs @ ys) = drop_duplicates f seen xs"
proof (induction xs arbitrary: seen)
  case Nil
  then show ?case by (simp add: drop_duplicates_all_seen)
next
  case (Cons x xs)
  show ?case
  proof (cases "f x \<in> set seen")
    case True
    with Cons.prems have "f ` set ys \<subseteq> set seen \<union> f ` set xs" by auto
    with True Cons.IH show ?thesis by simp
  next
    case False
    from Cons.prems have "f ` set ys \<subseteq> set (f x # seen) \<union> f ` set xs" by auto
    with False Cons.IH show ?thesis by simp
  qed
qed

lemma remove_duplicates_twice:
  "remove_duplicates (concat (map (\<lambda>r. [r, r]) C)) = remove_duplicates C"
proof (cases "C = []")
  case True
  then show ?thesis by (simp add: remove_duplicates_def)
next
  case False
  then have ne: "concat (map (\<lambda>r. [r, r]) C) \<noteq> []" by (cases C) simp_all
  show ?thesis
    unfolding remove_duplicates_def using False ne
    by (simp only: length_0_conv if_False drop_duplicates_twice)
qed

lemma remove_duplicates_append_self:
  "remove_duplicates (C @ C) = remove_duplicates C"
  using drop_duplicates_append_seen[of dedup_key C "[]" C]
  by (cases C) (simp_all add: remove_duplicates_def del: drop_duplicates.simps)

subsection \<open>Searches, token sets, averages, loading\<close>

lemma scan_product_find:
  "scan_product d c s k =
     (case find (\<lambda>e. product_entry_matches c s k (fst e)) d of Some e \<Rightarrow> snd e | None \<Rightarrow> [])"
  by (induction d) simp_all

lemma scan_marketing_find:
  "scan_marketing d c =
     (case find (\<lambda>e. marketing_entry_matches c (fst e)) d of Some e \<Rightarrow> snd e | None \<Rightarrow> [])"
  by (induction d) simp_all

lemma word_level_match_sets:
  "word_level_match a b \<longleftrightarrow> a \<noteq> [] \<and> b \<noteq> [] \<and> set (value_words a) \<inter> set (value_words b) \<noteq> {}"
  by (auto simp: word_level_match_def list_ex_iff)

lemma set_value_words:
  "set (value_words a) =
     {w. w \<noteq> [] \<and> (\<exists>v \<in> set (comma_values a). w = normalize_word v \<or> w \<in> normalize_word ` set (py_split v))}"
  by (auto simp: value_words_def split: if_splits)

lemma foldl_add_sum_list: "foldl (+) a xs = a + sum_list (xs :: rat list)"
  by (induction xs arbitrary: a) simp_all

lemma average_mean: "xs \<noteq> [] \<Longrightarrow> average xs = sum_list xs / of_nat (length xs)"
  by (simp add: average_def foldl_add_sum_list)

lemma load_sheet_shape:
  "(\<exists>e. load_sheet m src = (None, Some e)) \<or> (\<exists>d. load_sheet m src = (Some d, None))"
  by (cases src) (simp_all add: load_sheet_def)

lemma image_list_empty_frame: "image_list empty_frame = []"
  by (simp add: image_list_def empty_frame_def df_len_def required_cols_def)

subsection \<open>Which row a pair entry comes from\<close>

text \<open>
  The candidate dictionary assigns the pair \<open>(cat, key)\<close> for every row, so the entry holds
  the value of the last row with that pair; the ground-truth dictionary assigns it only when
  the pair is not yet present, so the entry holds the value of the first such row that has
  a value.
\<close>

lemma map_of_dict_set: "map_of (dict_set d k v) k' = (if k' = k then Some v else map_of d k')"
  by (induction d k v rule: dict_set.induct) auto

lemma vlm_index_snoc: "vlm_index (C @ [r]) = vlm_index_step (vlm_index C) r"
  by (simp add: vlm_index_def)

lemma vlm_pair_last_row:
  "dict_get (snd (vlm_index C)) (K2 c k) [] =
     (case find (\<lambda>r. cell (cat_for_match r) = c \<and> cell (Key r) = k) (rev C) of
        Some r \<Rightarrow> cell (Value r) | None \<Rightarrow> [])"
proof (induction C rule: rev_induct)
  case Nil
  show ?case by (simp add: vlm_index_def dict_get_def)
next
  case (snoc r C)
  then show ?case
    by (simp add: vlm_index_snoc vlm_index_step_def Let_def dict_get_def map_of_dict_set)
qed

lemma fnf_lookup_step_pair:
  "map_of (fnf_lookup_step d r) (K2 c k) =
     (case map_of d (K2 c k) of
        Some v \<Rightarrow> Some v
      | None \<Rightarrow>
          (if cell (cat_for_match r) = c \<and> cell (Key r) = k
              \<and> cell (Value r) \<noteq> [] \<and> cell (Value r) \<noteq> ''nan''
           then Some (cell (Value r)) else None))"
  by (auto simp: fnf_lookup_step_def Let_def map_of_dict_set map_of_eq_None_iff[symmetric]
           split: option.splits)

lemma foldl_fnf_lookup_step_pair:
  "map_of (foldl fnf_lookup_step d G) (K2 c k) =
     (case map_of d (K2 c k) of
        Some v \<Rightarrow> Some v
      | None \<Rightarrow>
          (case find (\<lambda>r. cell (cat_for_match r) = c \<and> cell (Key r) = k
                          \<and> cell (Value r) \<noteq> [] \<and> cell (Value r) \<noteq> ''nan'') G of
             Some r \<Rightarrow> Some (cell (Value r)) | None \<Rightarrow> None))"
proof (induction G arbitrary: d)
  case Nil
  show ?case by (simp split: option.splits)
next
  case (Cons r G)
  show ?case
    by (simp add: Cons.IH fnf_lookup_step_pair split: option.splits)
qed

lemma fnf_pair_first_row:
  "dict_get (build_fnf_lookup G) (K2 c k) [] =
     (case find (\<lambda>r. cell (cat_for_match r) = c \<and> cell (Key r) = k
                     \<and> cell (Value r) \<noteq> [] \<and> cell (Value r) \<noteq> ''nan'') G of
        Some r \<Rightarrow> cell (Value r) | None \<Rightarrow> [])"
  by (simp add: build_fnf_lookup_def dict_get_def foldl_fnf_lookup_step_pair split: option.splits)

section \<open>Scenario A: a ground-truth row and no candidate\<close>

text \<open>
  Claim C1, as the code has it: for the ground truth holding the one product row
  (outer, jacket, color, black) and the empty candidate table, \<open>calculate_accuracy\<close>
  returns a record, without raising, with \<open>product_total = 1\<close>, \<open>product_match = 0\<close>,
  value accuracy 0, subcategory accuracy 100 and therefore product accuracy
  \<open>0.6 * 0 + 0.4 * 100 = 40\<close>.
\<close>

theorem scenario_a_record:
  "reconcile [\<lparr>Cat = ''outer'', Subcat = ''jacket'', Key = ''color'', Value = ''black'',
        cat_for_match = ''outer'', subcat_for_match = ''jacket''\<rparr>] []
   = Inr \<lparr>marketing_match = 0, marketing_total = 0, marketing_extra = 0,
        product_match = 0, product_total = 1, product_extra = 0, subcat_errors = 0,
        has_brand = False, has_product_name = False,
        marketing_acc = 0, product_acc = 40, value_acc = 0, subcat_acc = 100\<rparr>"
  by code_simp

text \<open>
  Claim C1 as stated asks for product accuracy 0 on this input; the product accuracy
  returned is 40.
\<close>

theorem scenario_a_product_acc_not_zero:
  "map_sum id product_acc
     (reconcile [\<lparr>Cat = ''outer'', Subcat = ''jacket'', Key = ''color'', Value = ''black'',
        cat_for_match = ''outer'', subcat_for_match = ''jacket''\<rparr>] []) = Inr 40"
  by code_simp

section \<open>Order of the value lookup\<close>

text \<open>
  Claim C2, as the code has it: for a product entry (non-empty key) the candidate value is
  looked up first under the exact triple \<open>(cat, subcat, key)\<close>, then under the pair
  \<open>(cat, key)\<close>, and only when the value found so far is empty (or none was found) by the
  relaxed search, which takes the first dictionary entry, in insertion order, whose
  category word-matches, whose key is equal and whose subcategory fuzzy-matches or is empty
  on either side.
\<close>

theorem value_lookup_order:
  assumes "q_key \<noteq> []"
  shows "find_value d q_cat q_subcat q_key =
     (let relaxed = (case find (\<lambda>e. product_entry_matches q_cat q_subcat q_key (fst e)) d of
                       Some e \<Rightarrow> snd e | None \<Rightarrow> [])
      in case map_of d (K3 q_cat q_subcat q_key) of
           Some v \<Rightarrow> (if v \<noteq> [] then v else relaxed)
         | None \<Rightarrow>
             (case map_of d (K2 q_cat q_key) of
                Some v \<Rightarrow> (if v \<noteq> [] then v else relaxed)
              | None \<Rightarrow> relaxed))"
  using assms
  by (simp add: find_value_def dict_get_def Let_def scan_product_find split: option.splits)

text \<open>
  Witness for C2: the candidate rows (bottom, jeans, pattern, striped) and
  (bottom wear, pants, pattern, solid), queried for (bottom wear, jeans, pattern): the
  triple is absent and the pair gives \<open>solid\<close>.
\<close>

theorem value_lookup_order_witness:
  "''pattern'' \<noteq> [] \<and>
   find_value
     (snd (vlm_index
        [\<lparr>Cat = ''bottom'', Subcat = ''jeans'', Key = ''pattern'', Value = ''striped'',
          cat_for_match = ''bottom'', subcat_for_match = ''jeans''\<rparr>,
         \<lparr>Cat = ''bottom wear'', Subcat = ''pants'', Key = ''pattern'', Value = ''solid'',
          cat_for_match = ''bottom wear'', subcat_for_match = ''pants''\<rparr>]))
     ''bottom wear'' ''jeans'' ''pattern'' = ''solid''"
proof -
  let ?d = "snd (vlm_index
        [\<lparr>Cat = ''bottom'', Subcat = ''jeans'', Key = ''pattern'', Value = ''striped'',
          cat_for_match = ''bottom'', subcat_for_match = ''jeans''\<rparr>,
         \<lparr>Cat = ''bottom wear'', Subcat = ''pants'', Key = ''pattern'', Value = ''solid'',
          cat_for_match = ''bottom wear'', subcat_for_match = ''pants''\<rparr>])"
  have ne: "''pattern'' \<noteq> []" by simp
  have exact: "map_of ?d (K3 ''bottom wear'' ''jeans'' ''pattern'') = None" by code_simp
  have pair: "map_of ?d (K2 ''bottom wear'' ''pattern'') = Some ''solid''" by code_simp
  from value_lookup_order[OF ne, of ?d "''bottom wear''" "''jeans''"]
  have "find_value ?d ''bottom wear'' ''jeans'' ''pattern'' = ''solid''"
    unfolding exact pair by simp
  with ne show ?thesis by blast
qed

text \<open>
  Claim C2 as stated puts the relaxed search before the pair. On the same input the order
  of the specification gives \<open>striped\<close> (the category \<open>bottom\<close> word-matches \<open>bottom wear\<close>,
  the key is equal and the subcategories agree), the code gives \<open>solid\<close>.
\<close>

theorem value_lookup_order_counterexample:
  "find_value (snd (vlm_index [\<lparr>Cat = ''bottom'', Subcat = ''jeans'', Key = ''pattern'', Value = ''striped'',
        cat_for_match = ''bottom'', subcat_for_match = ''jeans''\<rparr>,
       \<lparr>Cat = ''bottom wear'', Subcat = ''pants'', Key = ''pattern'', Value = ''solid'',
        cat_for_match = ''bottom wear'', subcat_for_match = ''pants''\<rparr>]))
     ''bottom wear'' ''jeans'' ''pattern'' = ''solid''
   \<and> spec_value_lookup (snd (vlm_index [\<lparr>Cat = ''bottom'', Subcat = ''jeans'', Key = ''pattern'', Value = ''striped'',
        cat_for_match = ''bottom'', subcat_for_match = ''jeans''\<rparr>,
       \<lparr>Cat = ''bottom wear'', Subcat = ''pants'', Key = ''pattern'', Value = ''solid'',
        cat_for_match = ''bottom wear'', subcat_for_match = ''pants''\<rparr>]))
     ''bottom wear'' ''jeans'' ''pattern'' = ''striped''"
  by code_simp

section \<open>Load failures\<close>

text \<open>
  Claim C3, as the code has it: a load error of the ground-truth file or of the vendor file
  (a non-empty message) makes \<open>main\<close> report the failure and nothing else; when both load
  and the VLM results cannot be loaded, the VLM table is replaced by an empty one and
  \<open>main\<close> shows no comparison at all; per-image comparisons are shown only when all three
  sources are loaded, for the images of the VLM table.
\<close>

theorem load_failure_policy:
  "(load_fnf_data fnf_file = (None, Some e) \<and> e \<noteq> [] \<longrightarrow>
       main_report fnf_file result_files odd_file = LoadFailure (''F&F load failed: '' @ e))
   \<and> (load_fnf_data fnf_file = (Some f, None) \<and> load_oddconcept_data odd_file = (None, Some e) \<and> e \<noteq> [] \<longrightarrow>
       main_report fnf_file result_files odd_file = LoadFailure (''oddconcept load failed: '' @ e))
   \<and> (load_fnf_data fnf_file = (Some f, None) \<and> load_oddconcept_data odd_file = (Some od, None)
        \<and> fst (load_gemini_results result_files) = None \<longrightarrow>
       main_report fnf_file result_files odd_file = NoImages)
   \<and> (main_report fnf_file result_files odd_file = Compared images \<longrightarrow>
        images \<noteq> [] \<and>
        (\<exists>f' g od'. load_fnf_data fnf_file = (Some f', None)
           \<and> fst (load_gemini_results result_files) = Some g
           \<and> load_oddconcept_data odd_file = (Some od', None)
           \<and> images = image_list g))"
proof (intro conjI impI)
  assume "load_fnf_data fnf_file = (None, Some e) \<and> e \<noteq> []"
  then show "main_report fnf_file result_files odd_file = LoadFailure (''F&F load failed: '' @ e)"
    by (simp add: main_report_def load_data_def truthy_def message_def Let_def)
next
  assume "load_fnf_data fnf_file = (Some f, None) \<and> load_oddconcept_data odd_file = (None, Some e) \<and> e \<noteq> []"
  then show "main_report fnf_file result_files odd_file = LoadFailure (''oddconcept load failed: '' @ e)"
    by (simp add: main_report_def load_data_def truthy_def message_def Let_def)
next
  assume "load_fnf_data fnf_file = (Some f, None) \<and> load_oddconcept_data odd_file = (Some od, None)
        \<and> fst (load_gemini_results result_files) = None"
  then show "main_report fnf_file result_files odd_file = NoImages"
    by (simp add: main_report_def load_data_def truthy_def message_def Let_def image_list_empty_frame)
next
  assume a: "main_report fnf_file result_files odd_file = Compared images"
  obtain x1 e1 where f1: "load_fnf_data fnf_file = (x1, e1)" by (cases "load_fnf_data fnf_file")
  obtain x2 e2 where f2: "load_oddconcept_data odd_file = (x2, e2)" by (cases "load_oddconcept_data odd_file")
  have s1: "(x1 = None \<and> (\<exists>e. e1 = Some e)) \<or> ((\<exists>d. x1 = Some d) \<and> e1 = None)"
    using load_sheet_shape[of "''F&F answer file not found''" fnf_file] f1
    by (auto simp: load_fnf_data_def)
  have s2: "(x2 = None \<and> (\<exists>e. e2 = Some e)) \<or> ((\<exists>d. x2 = Some d) \<and> e2 = None)"
    using load_sheet_shape[of "''oddconcept result file not found''" odd_file] f2
    by (auto simp: load_oddconcept_data_def)
  from a f1 f2 s1 s2 show "images \<noteq> []"
    by (auto simp: main_report_def load_data_def truthy_def message_def Let_def
             split: if_splits option.splits)
  from a f1 f2 s1 s2 show "\<exists>f' g od'. load_fnf_data fnf_file = (Some f', None)
           \<and> fst (load_gemini_results result_files) = Some g
           \<and> load_oddconcept_data odd_file = (Some od', None)
           \<and> images = image_list g"
    by (auto simp: main_report_def load_data_def truthy_def message_def Let_def image_list_empty_frame
             split: if_splits option.splits)
qed

text \<open>
  Witness for C3: a ground-truth workbook without its \<open>Value\<close> column; a vendor file that
  is absent; an output folder with no result file; and three workbooks that load.
\<close>

theorem load_failure_policy_witness:
  "main_report (Workbook [(''Image'', [Some ''a.jpg'']), (''Cat'', [Some ''Outer'']),
                          (''Subcat'', [Some ''jacket'']), (''Key'', [Some ''color''])])
     [] Absent = LoadFailure ''F&F load failed: required columns are missing''
   \<and> main_report (Workbook [(''Image'', [Some ''a.jpg'']), (''Cat'', [Some ''Outer'']),
                          (''Subcat'', [Some ''jacket'']), (''Key'', [Some ''color'']),
                          (''Value'', [Some ''Black''])])
     [] Absent = LoadFailure ''oddconcept load failed: oddconcept result file not found''
   \<and> main_report (Workbook [(''Image'', [Some ''a.jpg'']), (''Cat'', [Some ''Outer'']),
                          (''Subcat'', [Some ''jacket'']), (''Key'', [Some ''color'']),
                          (''Value'', [Some ''Black''])])
     []
     (Workbook [(''Image'', [Some ''a.jpg'']), (''Cat'', [Some ''Outer'']),
                (''Subcat'', [Some ''coat'']), (''Key'', [Some ''color'']),
                (''Value'', [Some ''Black''])]) = NoImages
   \<and> image_list [(''Image_Name'', [Some ''a.jpg'']), (''Cat'', [Some ''outer'']),
                  (''Subcat'', [Some ''jacket'']), (''Key'', [Some ''color'']),
                  (''Value'', [Some ''black''])] \<noteq> []"
proof -
  let ?fnf_bad = "Workbook [(''Image'', [Some ''a.jpg'']), (''Cat'', [Some ''Outer'']),
                          (''Subcat'', [Some ''jacket'']), (''Key'', [Some ''color''])]"
  let ?fnf = "Workbook [(''Image'', [Some ''a.jpg'']), (''Cat'', [Some ''Outer'']),
                          (''Subcat'', [Some ''jacket'']), (''Key'', [Some ''color'']),
                          (''Value'', [Some ''Black''])]"
  let ?odd = "Workbook [(''Image'', [Some ''a.jpg'']), (''Cat'', [Some ''Outer'']),
                (''Subcat'', [Some ''coat'']), (''Key'', [Some ''color'']),
                (''Value'', [Some ''Black''])]"
  let ?gem = "Workbook [(''Image'', [Some ''a.jpg'']), (''Cat'', [Some ''Outer'']),
                (''Subcat'', [Some ''jacket'']), (''Key'', [Some ''color'']),
                (''Value'', [Some ''Black''])]"
  let ?f = "[(''Image'', [Some ''a.jpg'']), (''Cat'', [Some ''outer'']),
             (''Subcat'', [Some ''jacket'']), (''Key'', [Some ''color'']),
             (''Value'', [Some ''black''])]"
  let ?od = "[(''Image'', [Some ''a.jpg'']), (''Cat'', [Some ''outer'']),
             (''Subcat'', [Some ''coat'']), (''Key'', [Some ''color'']),
             (''Value'', [Some ''black''])]"
  let ?g = "[(''Image_Name'', [Some ''a.jpg'']), (''Cat'', [Some ''outer'']),
             (''Subcat'', [Some ''jacket'']), (''Key'', [Some ''color'']),
             (''Value'', [Some ''black''])]"
  have h1: "load_fnf_data ?fnf_bad = (None, Some ''required columns are missing'')
            \<and> ''required columns are missing'' \<noteq> []"
    by code_simp
  have h2: "load_fnf_data ?fnf = (Some ?f, None)
            \<and> load_oddconcept_data Absent = (None, Some ''oddconcept result file not found'')
            \<and> ''oddconcept result file not found'' \<noteq> []"
    by code_simp
  have h3: "load_fnf_data ?fnf = (Some ?f, None) \<and> load_oddconcept_data ?odd = (Some ?od, None)
            \<and> fst (load_gemini_results []) = None"
    by code_simp
  have h4: "main_report ?fnf [(''vlm_analysis_result_1.xlsx'', ?gem)] ?odd = Compared [''a.jpg'']"
    by code_simp
  have g: "fst (load_gemini_results [(''vlm_analysis_result_1.xlsx'', ?gem)]) = Some ?g"
    by code_simp
  note p1 = load_failure_policy[of ?fnf_bad "''required columns are missing''" "[]" Absent]
  note p2 = load_failure_policy[of ?fnf "''oddconcept result file not found''" "[]" Absent ?f]
  note p3 = load_failure_policy[of ?fnf _ "[]" ?odd ?f ?od]
  note p4 = load_failure_policy[of ?fnf _ "[(''vlm_analysis_result_1.xlsx'', ?gem)]" ?odd _ _
               "[''a.jpg'']"]
  have c1: "main_report ?fnf_bad [] Absent = LoadFailure (''F&F load failed: '' @ ''required columns are missing'')"
    using p1 h1 by blast
  have c2: "main_report ?fnf [] Absent
              = LoadFailure (''oddconcept load failed: '' @ ''oddconcept result file not found'')"
    using p2 h2 by blast
  have c3: "main_report ?fnf [] ?odd = NoImages"
    using p3 h3 by blast
  have c4: "image_list ?g \<noteq> []"
    using p4 h4 g by auto
  from c1 c2 c3 c4 show ?thesis by simp
qed

text \<open>
  Claim C3 as stated lets one candidate source fail alone. With the ground truth and the
  VLM results loaded and the vendor file absent, \<open>main\<close> reports a load failure and shows
  no comparison; with the vendor file loaded and no VLM result file, it shows no comparison
  either.
\<close>

theorem candidate_load_failure_counterexample:
  "main_report (Workbook [(''Image'', [Some ''a.jpg'']), (''Cat'', [Some ''Outer'']),
                          (''Subcat'', [Some ''jacket'']), (''Key'', [Some ''color'']),
                          (''Value'', [Some ''Black''])])
     [(''vlm_analysis_result_1.xlsx'',
       Workbook [(''Image'', [Some ''a.jpg'']), (''Cat'', [Some ''Outer'']),
                 (''Subcat'', [Some ''jacket'']), (''Key'', [Some ''color'']),
                 (''Value'', [Some ''Black''])])]
     Absent = LoadFailure ''oddconcept load failed: oddconcept result file not found''
   \<and> main_report (Workbook [(''Image'', [Some ''a.jpg'']), (''Cat'', [Some ''Outer'']),
                          (''Subcat'', [Some ''jacket'']), (''Key'', [Some ''color'']),
                          (''Value'', [Some ''Black''])])
     []
     (Workbook [(''Image'', [Some ''a.jpg'']), (''Cat'', [Some ''Outer'']),
                (''Subcat'', [Some ''coat'']), (''Key'', [Some ''color'']),
                (''Value'', [Some ''Black''])]) = NoImages"
  by code_simp

section \<open>The same key under two subcategories\<close>

text \<open>
  Claim C4 (first match wins for the pair \<open>(cat, key)\<close> of the candidate): evaluated on the
  candidate rows (bottom, pants, pattern, solid) and (bottom, shorts, pattern, striped),
  in sort order, against the ground-truth row (bottom, jeans, pattern, solid). The
  candidate dictionary holds the value of the last row, \<open>striped\<close>, under the pair (in
  general: \<open>vlm_pair_last_row\<close>, against \<open>fnf_pair_first_row\<close> for the ground truth), so the
  entry is scored as a value miss, while the subcategory check reads the first row.
\<close>

theorem candidate_pair_holds_last_value:
  "dict_get (snd (vlm_index [\<lparr>Cat = ''bottom'', Subcat = ''pants'', Key = ''pattern'', Value = ''solid'',
        cat_for_match = ''bottom'', subcat_for_match = ''pants''\<rparr>,
       \<lparr>Cat = ''bottom'', Subcat = ''shorts'', Key = ''pattern'', Value = ''striped'',
        cat_for_match = ''bottom'', subcat_for_match = ''shorts''\<rparr>]))
     (K2 ''bottom'' ''pattern'') [] = ''striped''
   \<and> reconcile [\<lparr>Cat = ''bottom'', Subcat = ''jeans'', Key = ''pattern'', Value = ''solid'',
        cat_for_match = ''bottom'', subcat_for_match = ''jeans''\<rparr>]
        [\<lparr>Cat = ''bottom'', Subcat = ''pants'', Key = ''pattern'', Value = ''solid'',
        cat_for_match = ''bottom'', subcat_for_match = ''pants''\<rparr>,
       \<lparr>Cat = ''bottom'', Subcat = ''shorts'', Key = ''pattern'', Value = ''striped'',
        cat_for_match = ''bottom'', subcat_for_match = ''shorts''\<rparr>]
     = Inr \<lparr>marketing_match = 0, marketing_total = 0, marketing_extra = 0,
        product_match = 0, product_total = 1, product_extra = 0, subcat_errors = 1,
        has_brand = False, has_product_name = False,
        marketing_acc = 0, product_acc = 0, value_acc = 0, subcat_acc = 0\<rparr>"
  by code_simp

section \<open>Word-level matching of values\<close>

text \<open>
  Claim C5, as the code has it: \<open>word_level_match a b\<close> holds exactly when both strings
  are non-empty and their token sets intersect, where the tokens of a string are, for each
  comma-separated value (stripped and lower-cased), the normalised whole value and every
  normalised whitespace-separated word of it, without the empty token; no trailing \<open>s\<close> is
  removed.
\<close>

theorem word_level_match_tokens:
  "(word_level_match a b \<longleftrightarrow>
      a \<noteq> [] \<and> b \<noteq> [] \<and> set (value_words a) \<inter> set (value_words b) \<noteq> {})
   \<and> set (value_words a) =
       {w. w \<noteq> [] \<and> (\<exists>v \<in> set (comma_values a).
              w = normalize_word v \<or> w \<in> normalize_word ` set (py_split v))}"
  using word_level_match_sets[of a b] set_value_words[of a] by blast

text \<open>
  Witness for C5: \<open>sky blue\<close> and \<open>skyblue\<close> share the token \<open>skyblue\<close>, the whole first
  value normalised.
\<close>

theorem word_level_match_tokens_witness:
  "''sky blue'' \<in> set (comma_values ''sky blue'')
   \<and> ''skyblue'' \<in> set (value_words ''sky blue'')
   \<and> word_level_match ''sky blue'' ''skyblue''"
proof -
  have v: "''sky blue'' \<in> set (comma_values ''sky blue'')" by code_simp
  have n: "normalize_word ''sky blue'' = ''skyblue''" by code_simp
  have s: "set (value_words ''sky blue'') =
       {w. w \<noteq> [] \<and> (\<exists>v \<in> set (comma_values ''sky blue'').
              w = normalize_word v \<or> w \<in> normalize_word ` set (py_split v))}"
    using word_level_match_tokens[of "''sky blue''" "''skyblue''"] by blast
  have "\<exists>v \<in> set (comma_values ''sky blue'').
              ''skyblue'' = normalize_word v \<or> ''skyblue'' \<in> normalize_word ` set (py_split v)"
    using v n by (intro bexI[of _ "''sky blue''"]) simp_all
  then have t1: "''skyblue'' \<in> set (value_words ''sky blue'')"
    unfolding s by simp
  have t2: "''skyblue'' \<in> set (value_words ''skyblue'')" by code_simp
  have ne: "''sky blue'' \<noteq> [] \<and> ''skyblue'' \<noteq> []" by simp
  have "set (value_words ''sky blue'') \<inter> set (value_words ''skyblue'') \<noteq> {}"
    using t1 t2 by blast
  then have "word_level_match ''sky blue'' ''skyblue''"
    using word_level_match_tokens[of "''sky blue''" "''skyblue''"] ne by blast
  with v t1 show ?thesis by simp
qed

text \<open>
  Claim C5 as stated has the tokens singularised, so that \<open>shoes\<close> would match \<open>shoe\<close>.
  The value matcher does not match them; the subcategory matcher, which removes a
  trailing \<open>s\<close> from each word, does.
\<close>

theorem word_level_match_shoes_counterexample:
  "\<not> word_level_match ''shoes'' ''shoe'' \<and> fuzzy_match_subcat ''shoes'' ''shoe''"
  by code_simp

section \<open>Zero denominators\<close>

text \<open>
  Claim C6: for every candidate table, ground-truth table and ground-truth dictionary,
  \<open>calculate_accuracy\<close> returns a record (no \<open>ZeroDivisionError\<close>); when its
  \<open>marketing_total\<close> is 0 its marketing accuracy is 0, and when its \<open>product_total\<close> is 0 its
  value, subcategory and product accuracies are 0.
\<close>

theorem zero_denominator_safe:
  "\<exists>r. calculate_accuracy C G fl = Inr r
     \<and> (marketing_total r = 0 \<longrightarrow> marketing_acc r = 0)
     \<and> (product_total r = 0 \<longrightarrow> value_acc r = 0 \<and> subcat_acc r = 0 \<and> product_acc r = 0)"
  unfolding calc_eq score_eq by simp

text \<open>
  Witness for C6: an empty ground truth against a candidate with one row, where both totals
  are 0.
\<close>

theorem zero_denominator_safe_witness:
  "\<exists>r. calculate_accuracy [\<lparr>Cat = ''outer'', Subcat = ''jacket'', Key = ''color'', Value = ''black'',
        cat_for_match = ''outer'', subcat_for_match = ''jacket''\<rparr>] [] [] = Inr r
     \<and> marketing_total r = 0 \<and> marketing_acc r = 0
     \<and> product_total r = 0 \<and> value_acc r = 0 \<and> subcat_acc r = 0 \<and> product_acc r = 0"
proof -
  let ?C = "[\<lparr>Cat = ''outer'', Subcat = ''jacket'', Key = ''color'', Value = ''black'',
        cat_for_match = ''outer'', subcat_for_match = ''jacket''\<rparr>]"
  from zero_denominator_safe[of ?C "[]" "[]"]
  obtain r where r: "calculate_accuracy ?C [] [] = Inr r"
    and m: "marketing_total r = 0 \<longrightarrow> marketing_acc r = 0"
    and p: "product_total r = 0 \<longrightarrow> value_acc r = 0 \<and> subcat_acc r = 0 \<and> product_acc r = 0"
    by blast
  have "map_sum id marketing_total (calculate_accuracy ?C [] []) = Inr 0"
       "map_sum id product_total (calculate_accuracy ?C [] []) = Inr 0"
    by code_simp+
  with r have "marketing_total r = 0" "product_total r = 0" by simp_all
  with r m p show ?thesis by blast
qed

section \<open>Duplicated candidate rows\<close>

text \<open>
  Claim C7: deduplicating and reconciling a candidate table in which every row occurs
  twice, either next to itself or as a second copy of the whole table, gives the same
  accuracy record as deduplicating and reconciling the table itself.
\<close>

theorem dedup_then_reconcile_duplicated:
  "dedup_then_reconcile G (concat (map (\<lambda>r. [r, r]) C)) = dedup_then_reconcile G C
   \<and> dedup_then_reconcile G (C @ C) = dedup_then_reconcile G C"
  by (simp add: dedup_then_reconcile_def remove_duplicates_twice remove_duplicates_append_self)

section \<open>Corpus averages\<close>

text \<open>
  Claim C8: the corpus summary of a candidate source is the arithmetic mean of the
  per-image marketing accuracies and of the per-image product accuracies, each image
  counting once; the combined score is half the sum of the two means; product accuracies
  100, 0 and 50 average to 50.
\<close>

theorem summary_is_unweighted_mean:
  "(accs \<noteq> [] \<longrightarrow>
       avg_marketing (summarise accs) = sum_list (map marketing_acc accs) / of_nat (length accs)
     \<and> avg_product (summarise accs) = sum_list (map product_acc accs) / of_nat (length accs))
   \<and> avg_combined (summarise accs) = (avg_marketing (summarise accs) + avg_product (summarise accs)) / 2
   \<and> (map product_acc accs = [100, 0, 50] \<longrightarrow> avg_product (summarise accs) = 50)"
  by (simp add: summarise_def Let_def average_mean)

text \<open>
  Witness for C8: three images with 1, 4 and 2 product items and product accuracies 100, 0
  and 50.
\<close>

theorem summary_is_unweighted_mean_witness:
  "avg_product (summarise
     [\<lparr>marketing_match = 1, marketing_total = 1, marketing_extra = 0,
        product_match = 1, product_total = 1, product_extra = 0, subcat_errors = 0,
        has_brand = False, has_product_name = False,
        marketing_acc = 100, product_acc = 100, value_acc = 100, subcat_acc = 100\<rparr>,
      \<lparr>marketing_match = 0, marketing_total = 2, marketing_extra = 0,
        product_match = 0, product_total = 4, product_extra = 0, subcat_errors = 4,
        has_brand = False, has_product_name = False,
        marketing_acc = 0, product_acc = 0, value_acc = 0, subcat_acc = 0\<rparr>,
      \<lparr>marketing_match = 1, marketing_total = 2, marketing_extra = 0,
        product_match = 1, product_total = 2, product_extra = 0, subcat_errors = 1,
        has_brand = False, has_product_name = False,
        marketing_acc = 50, product_acc = 50, value_acc = 50, subcat_acc = 50\<rparr>]) = 50
   \<and> avg_marketing (summarise
     [\<lparr>marketing_match = 1, marketing_total = 1, marketing_extra = 0,
        product_match = 1, product_total = 1, product_extra = 0, subcat_errors = 0,
        has_brand = False, has_product_name = False,
        marketing_acc = 100, product_acc = 100, value_acc = 100, subcat_acc = 100\<rparr>,
      \<lparr>marketing_match = 0, marketing_total = 2, marketing_extra = 0,
        product_match = 0, product_total = 4, product_extra = 0, subcat_errors = 4,
        has_brand = False, has_product_name = False,
        marketing_acc = 0, product_acc = 0, value_acc = 0, subcat_acc = 0\<rparr>,
      \<lparr>marketing_match = 1, marketing_total = 2, marketing_extra = 0,
        product_match = 1, product_total = 2, product_extra = 0, subcat_errors = 1,
        has_brand = False, has_product_name = False,
        marketing_acc = 50, product_acc = 50, value_acc = 50, subcat_acc = 50\<rparr>]) = 50"
proof -
  let ?accs = "[\<lparr>marketing_match = 1, marketing_total = 1, marketing_extra = 0,
        product_match = 1, product_total = 1, product_extra = 0, subcat_errors = 0,
        has_brand = False, has_product_name = False,
        marketing_acc = 100, product_acc = 100, value_acc = 100, subcat_acc = 100\<rparr>,
      \<lparr>marketing_match = 0, marketing_total = 2, marketing_extra = 0,
        product_match = 0, product_total = 4, product_extra = 0, subcat_errors = 4,
        has_brand = False, has_product_name = False,
        marketing_acc = 0, product_acc = 0, value_acc = 0, subcat_acc = 0\<rparr>,
      \<lparr>marketing_match = 1, marketing_total = 2, marketing_extra = 0,
        product_match = 1, product_total = 2, product_extra = 0, subcat_errors = 1,
        has_brand = False, has_product_name = False,
        marketing_acc = 50, product_acc = 50, value_acc = 50, subcat_acc = 50\<rparr>]"
  have ne: "?accs \<noteq> []" by simp
  have pa: "map product_acc ?accs = [100, 0, 50]" by simp
  have ma: "sum_list (map marketing_acc ?accs) / of_nat (length ?accs) = 50" by simp
  from summary_is_unweighted_mean[of ?accs] ne pa ma show ?thesis by simp
qed

section \<open>Bounds of the record\<close>

text \<open>
  Claim C10: the record that \<open>calculate_accuracy\<close> returns has
  \<open>marketing_match \<le> marketing_total\<close>, \<open>product_match \<le> product_total\<close> and
  \<open>subcat_errors \<le> product_total\<close>, none of them negative; the two totals together count
  at most one per ground-truth row; and its marketing, value, subcategory and product
  accuracies lie between 0 and 100.
\<close>

theorem accuracy_record_bounds:
  "\<exists>r. calculate_accuracy C G fl = Inr r
     \<and> 0 \<le> marketing_match r \<and> marketing_match r \<le> marketing_total r
     \<and> 0 \<le> product_match r \<and> product_match r \<le> product_total r
     \<and> 0 \<le> subcat_errors r \<and> subcat_errors r \<le> product_total r
     \<and> marketing_total r + product_total r \<le> int (length G)
     \<and> 0 \<le> marketing_acc r \<and> marketing_acc r \<le> 100
     \<and> 0 \<le> value_acc r \<and> value_acc r \<le> 100
     \<and> 0 \<le> subcat_acc r \<and> subcat_acc r \<le> 100
     \<and> 0 \<le> product_acc r \<and> product_acc r \<le> 100"
proof -
  define t where "t = foldl (extra_step fl) (foldl (fnf_step C (snd (vlm_index C))) (fst (vlm_index C)) G) C"
  have ok: "counts_ok t" unfolding t_def by (rule calc_counts_ok)
  have len: "marketing_total t + product_total t \<le> int (length G)"
    unfolding t_def by (rule calc_totals)
  have e: "calculate_accuracy C G fl = score t" unfolding t_def by (rule calc_eq)
  from score_bounds[OF ok] obtain r where r: "score t = Inr r"
     "marketing_match r = marketing_match t" "marketing_total r = marketing_total t"
     "product_match r = product_match t" "product_total r = product_total t"
     "subcat_errors r = subcat_errors t"
     "0 \<le> marketing_acc r" "marketing_acc r \<le> 100"
     "0 \<le> value_acc r" "value_acc r \<le> 100"
     "0 \<le> subcat_acc r" "subcat_acc r \<le> 100"
     "0 \<le> product_acc r" "product_acc r \<le> 100"
    by blast
  show ?thesis
    using ok len r unfolding e counts_ok_def by simp
qed

end
